theory Spec2Isabelle
  imports Complex_Main
begin

section \<open>JavaScript values\<close>

text \<open>
  A JavaScript number is NaN, one of the two infinities, or a finite value. Finite doubles
  are read as the real numbers they denote: the rounding of \<open>+\<close>, \<open>-\<close> and \<open>/\<close> is not
  modelled, and negative zero is not told apart from zero.
\<close>

datatype jsnum = Fin real | PInf | NInf | NaN

text \<open>The values a property of a row can hold; \<open>JUndefined\<close> is also what reading an
  absent property gives.\<close>

datatype jsval = JNum jsnum | JStr string | JNull | JUndefined

text \<open>\<open>typeof v === 'number'\<close>\<close>

fun is_number :: "jsval \<Rightarrow> bool" where
  "is_number (JNum n) = True"
| "is_number v = False"

fun js_add :: "jsnum \<Rightarrow> jsnum \<Rightarrow> jsnum" where
  "js_add NaN y = NaN"
| "js_add x NaN = NaN"
| "js_add PInf NInf = NaN"
| "js_add NInf PInf = NaN"
| "js_add PInf y = PInf"
| "js_add x PInf = PInf"
| "js_add NInf y = NInf"
| "js_add x NInf = NInf"
| "js_add (Fin a) (Fin b) = Fin (a + b)"

fun js_neg :: "jsnum \<Rightarrow> jsnum" where
  "js_neg NaN = NaN"
| "js_neg PInf = NInf"
| "js_neg NInf = PInf"
| "js_neg (Fin a) = Fin (- a)"

definition js_sub :: "jsnum \<Rightarrow> jsnum \<Rightarrow> jsnum" where
  "js_sub x y = js_add x (js_neg y)"

text \<open>Division. A finite non-zero value over zero is given the sign of the dividend (the
  sign of a zero divisor is not modelled).\<close>

fun js_div :: "jsnum \<Rightarrow> jsnum \<Rightarrow> jsnum" where
  "js_div NaN y = NaN"
| "js_div x NaN = NaN"
| "js_div (Fin a) (Fin b) =
     (if b \<noteq> 0 then Fin (a / b)
      else if a > 0 then PInf else if a < 0 then NInf else NaN)"
| "js_div (Fin a) y = Fin 0"
| "js_div PInf (Fin b) = (if b < 0 then NInf else PInf)"
| "js_div NInf (Fin b) = (if b < 0 then PInf else NInf)"
| "js_div x y = NaN"

text \<open>The relational operators \<open><\<close> and \<open><=\<close>: false as soon as one side is NaN.\<close>

fun js_lt :: "jsnum \<Rightarrow> jsnum \<Rightarrow> bool" where
  "js_lt NaN y = False"
| "js_lt x NaN = False"
| "js_lt (Fin a) (Fin b) = (a < b)"
| "js_lt x PInf = (x \<noteq> PInf)"
| "js_lt NInf y = (y \<noteq> NInf)"
| "js_lt x y = False"

fun js_le :: "jsnum \<Rightarrow> jsnum \<Rightarrow> bool" where
  "js_le NaN y = False"
| "js_le x NaN = False"
| "js_le (Fin a) (Fin b) = (a \<le> b)"
| "js_le x PInf = True"
| "js_le NInf y = True"
| "js_le x y = False"

definition js_ge :: "jsnum \<Rightarrow> jsnum \<Rightarrow> bool" where
  "js_ge x y = js_le y x"

text \<open>\<open>!x\<close> on a number: zero and NaN are falsy.\<close>

fun js_not :: "jsnum \<Rightarrow> bool" where
  "js_not NaN = True"
| "js_not (Fin a) = (a = 0)"
| "js_not x = False"

text \<open>\<open>x !== y\<close> on numbers: NaN differs from everything, itself included.\<close>

definition js_strict_neq :: "jsnum \<Rightarrow> jsnum \<Rightarrow> bool" where
  "js_strict_neq x y = (x = NaN \<or> y = NaN \<or> x \<noteq> y)"

section \<open>Fixes\<close>

text \<open>A row of the \<open>locations\<close> table as \<open>App.js\<close> selects it. A point that carries
  latitude and longitude only has \<open>JUndefined\<close> in the other three fields.\<close>

record location =
  latitude :: jsval
  longitude :: jsval
  timestamp :: jsval
  tracking_id :: jsval
  address :: jsval

text \<open>The object literal \<open>{ latitude: lat, longitude: lng }\<close>.\<close>

definition point :: "jsval \<Rightarrow> jsval \<Rightarrow> location" where
  "point lat lng =
     \<lparr>latitude = lat, longitude = lng, timestamp = JUndefined,
      tracking_id = JUndefined, address = JUndefined\<rparr>"

text \<open>
  Two collaborators of \<open>App.js\<close> are not part of the repository and are parameters of
  every function that calls them:
  \<^item> \<open>haversine\<close>, the npm package: \<open>haversine a b {unit: u}\<close> is \<open>hav u a b\<close>;
  \<^item> \<open>date_ms v\<close>, the time value in milliseconds of \<open>new Date(v)\<close>, NaN for an invalid
    date, which is what \<open>new Date(x) - new Date(y)\<close> subtracts.
\<close>

type_synonym haversine = "string \<Rightarrow> location \<Rightarrow> location \<Rightarrow> jsnum"
type_synonym date_ctor = "jsval \<Rightarrow> jsnum"

section \<open>Speed and stops (\<open>App.js\<close>)\<close>

definition calculateSpeed :: "haversine \<Rightarrow> date_ctor \<Rightarrow> location \<Rightarrow> location \<Rightarrow> jsnum" where
  "calculateSpeed hav date_ms from to =
     (let distanceKm = hav ''km'' from to;
          timeDiff = js_div (js_sub (date_ms (timestamp to)) (date_ms (timestamp from)))
                            (Fin 3600000)
      in if js_not timeDiff \<or> js_le timeDiff (Fin 0) then Fin 0
         else js_div distanceKm timeDiff)"

definition isStop :: "haversine \<Rightarrow> date_ctor \<Rightarrow> location \<Rightarrow> location \<Rightarrow> bool" where
  "isStop hav date_ms current previous =
     (let distanceM = hav ''meter'' current previous;
          timeDiff = js_div (js_sub (date_ms (timestamp current)) (date_ms (timestamp previous)))
                            (Fin 60000)
      in js_le distanceM (Fin 50) \<and> js_ge timeDiff (Fin 5))"

text \<open>The marker callback of \<open>coordinates.map((coord, index) => ...)\<close>, up to the label.\<close>

definition speedLabel :: "haversine \<Rightarrow> date_ctor \<Rightarrow> location list \<Rightarrow> nat \<Rightarrow> string" where
  "speedLabel hav date_ms coordinates index =
     (if index > 0 then
        (let speed = calculateSpeed hav date_ms (coordinates ! (index - 1)) (coordinates ! index)
         in if js_lt speed (Fin 5) then ''Walking'' else ''Vehicle'')
      else '''')"

text \<open>The stop loop of \<open>fetchData\<close>:
  \<^verbatim>\<open>for (let i = 1; i < validCoords.length; i++)
    if (isStop(validCoords[i], validCoords[i - 1])) detectedStops.push(validCoords[i]);\<close>\<close>

function stops_loop ::
  "haversine \<Rightarrow> date_ctor \<Rightarrow> location list \<Rightarrow> nat \<Rightarrow> location list \<Rightarrow> location list" where
  "stops_loop hav date_ms validCoords i detectedStops =
     (if i < length validCoords then
        stops_loop hav date_ms validCoords (i + 1)
          (if isStop hav date_ms (validCoords ! i) (validCoords ! (i - 1))
           then detectedStops @ [validCoords ! i] else detectedStops)
      else detectedStops)"
  by pat_completeness auto
termination
  by (relation "measure (\<lambda>(hav, date_ms, validCoords, i, detectedStops). length validCoords - i)")
     auto

declare stops_loop.simps [simp del]

definition detectStops :: "haversine \<Rightarrow> date_ctor \<Rightarrow> location list \<Rightarrow> location list" where
  "detectStops hav date_ms validCoords = stops_loop hav date_ms validCoords 1 []"

section \<open>Total distance (\<open>App.js\<close>)\<close>

text \<open>The decimal digits of a natural number, most significant first.\<close>

fun digits :: "nat \<Rightarrow> string" where
  "digits n =
     (if n < 10 then [''0123456789'' ! n]
      else digits (n div 10) @ [''0123456789'' ! (n mod 10)])"

declare digits.simps [simp del]

text \<open>
  \<open>Number.prototype.toFixed\<close> as ECMAScript defines it: a value that is not finite prints
  as \<open>Number::toString\<close> does; a negative value prints its sign and then its magnitude; a
  magnitude of at least \<open>10^21\<close> prints as \<open>ToString\<close> does (the parameter \<open>toStr\<close>);
  otherwise the integer \<open>n\<close> nearest to \<open>x * 10^f\<close> (the larger one on a tie) prints with
  a point before its last \<open>f\<close> digits, padded with zeros to \<open>f + 1\<close> digits.
\<close>

definition toFixed :: "(jsval \<Rightarrow> string) \<Rightarrow> jsnum \<Rightarrow> nat \<Rightarrow> string" where
  "toFixed toStr v f =
     (case v of
        NaN \<Rightarrow> ''NaN''
      | PInf \<Rightarrow> ''Infinity''
      | NInf \<Rightarrow> ''-Infinity''
      | Fin r \<Rightarrow>
          (let s = (if r < 0 then ''-'' else []);
               x = (if r < 0 then - r else r)
           in if x \<ge> 10 ^ 21 then s @ toStr (JNum (Fin x))
              else
                (let n = nat \<lfloor>x * 10 ^ f + 1 / 2\<rfloor>;
                     m = digits n;
                     m = (if f \<noteq> 0 then
                            (let k = length m;
                                 m = (if k \<le> f then replicate (f + 1 - k) (CHR ''0'') @ m else m);
                                 k = (if k \<le> f then f + 1 else k)
                             in take (k - f) m @ ''.'' @ drop (k - f) m)
                          else m)
                 in s @ m)))"

text \<open>
  The loop of \<open>calculateTotalDistance\<close>. An element of \<open>coords\<close> is \<open>None\<close> where the
  array holds \<open>null\<close> or \<open>undefined\<close> (the operands of \<open>!a || !b\<close>); a pair that fails
  the guard leaves \<open>distance\<close> as it is (\<open>continue\<close>).
\<close>

function distance_loop ::
  "haversine \<Rightarrow> location option list \<Rightarrow> nat \<Rightarrow> jsnum \<Rightarrow> jsnum" where
  "distance_loop hav coords i distance =
     (if i < length coords - 1 then
        distance_loop hav coords (i + 1)
          (case coords ! i of
             None \<Rightarrow> distance
           | Some a \<Rightarrow>
               (case coords ! (i + 1) of
                  None \<Rightarrow> distance
                | Some b \<Rightarrow>
                    if \<not> is_number (latitude a) \<or> \<not> is_number (longitude a) \<or>
                       \<not> is_number (latitude b) \<or> \<not> is_number (longitude b)
                    then distance
                    else js_add distance
                           (hav ''km'' (point (latitude a) (longitude a))
                                       (point (latitude b) (longitude b)))))
      else distance)"
  by pat_completeness auto
termination
  by (relation "measure (\<lambda>(hav, coords, i, distance). length coords - 1 - i)") auto

declare distance_loop.simps [simp del]

text \<open>The argument is an array by its type, so \<open>!Array.isArray(coords)\<close> is false.\<close>

definition calculateTotalDistance ::
  "haversine \<Rightarrow> (jsval \<Rightarrow> string) \<Rightarrow> location option list \<Rightarrow> string" where
  "calculateTotalDistance hav toStr coords =
     (if length coords < 2 then ''0.00''
      else toFixed toStr (distance_loop hav coords 0 (Fin 0)) 2)"

text \<open>
  The sum the loop is claimed to compute: the legs between consecutive elements, in order,
  a leg being absent when one of its ends is not an object with numbers for latitude and
  longitude.
\<close>

definition numeric_position :: "location option \<Rightarrow> bool" where
  "numeric_position p =
     (case p of None \<Rightarrow> False | Some a \<Rightarrow> is_number (latitude a) \<and> is_number (longitude a))"

fun leg_km :: "haversine \<Rightarrow> location option \<times> location option \<Rightarrow> jsnum option" where
  "leg_km hav (Some a, Some b) =
     (if numeric_position (Some a) \<and> numeric_position (Some b)
      then Some (hav ''km'' (point (latitude a) (longitude a)) (point (latitude b) (longitude b)))
      else None)"
| "leg_km hav p = None"

definition legs_km :: "haversine \<Rightarrow> location option list \<Rightarrow> jsnum list" where
  "legs_km hav coords = List.map_filter (leg_km hav) (zip coords (tl coords))"

section \<open>Road snapping (\<open>utils/mapbox.js\<close>)\<close>

definition MAPBOX_TOKEN :: string where
  "MAPBOX_TOKEN =
     ''pk.eyJ1IjoiY3licml4IiwiYSI6ImNtZGhvZXB1ZjAzYmcyanNoYzlyMG5kdm8ifQ.7eaEBVIX4JgCiKZ1oOzjpQ''"

text \<open>\<open>Array.prototype.join\<close> on strings.\<close>

fun join :: "string \<Rightarrow> string list \<Rightarrow> string" where
  "join sep [] = []"
| "join sep [x] = x"
| "join sep (x # y # xs) = x @ sep @ join sep (y # xs)"

text \<open>
  What \<open>await axios.get(url)\<close> can do. The promise is rejected on a transport error and
  on a status outside 2xx. Otherwise \<open>response.data\<close> is the parsed body: absent, or an
  object whose \<open>matchings\<close> is absent (or null) or a list; a matching may lack its
  \<open>geometry\<close>, a geometry its \<open>coordinates\<close>; a coordinate is a pair \<open>[lng, lat]\<close> of
  numbers.
\<close>

type_synonym position = "jsnum \<times> jsnum"

record geometry_json =
  coordinates :: "position list option"

record matching_json =
  geometry :: "geometry_json option"

record data_json =
  matchings :: "matching_json list option"

datatype axios_outcome = Rejected | Resolved "data_json option"

text \<open>The template literals that build the request: \<open>toStr\<close> is the string conversion of
  \<open>${...}\<close>.\<close>

definition snap_url :: "(jsval \<Rightarrow> string) \<Rightarrow> location list \<Rightarrow> string" where
  "snap_url toStr coords =
     (let coordString =
            join '';'' (map (\<lambda>p. toStr (longitude p) @ '','' @ toStr (latitude p)) coords)
      in ''https://api.mapbox.com/matching/v5/mapbox/driving/'' @ coordString @
         ''?geometries=geojson&overview=full&steps=true&access_token='' @ MAPBOX_TOKEN)"

text \<open>\<open>matchings.forEach(matching => { if (matching.geometry && matching.geometry.coordinates)
  allCoords = allCoords.concat(matching.geometry.coordinates) })\<close>\<close>

definition allCoords :: "matching_json list \<Rightarrow> position list" where
  "allCoords ms =
     foldl (\<lambda>allCoords matching.
              case geometry matching of
                None \<Rightarrow> allCoords
              | Some g \<Rightarrow> (case coordinates g of None \<Rightarrow> allCoords | Some cs \<Rightarrow> allCoords @ cs))
           [] ms"

text \<open>\<open>allCoords.filter((coord, index, self) => index === 0 ||
  coord[0] !== self[index - 1][0] || coord[1] !== self[index - 1][1])\<close>\<close>

definition uniqueCoords :: "position list \<Rightarrow> position list" where
  "uniqueCoords self =
     map (nth self)
       (filter (\<lambda>index. index = 0 \<or>
                  js_strict_neq (fst (self ! index)) (fst (self ! (index - 1))) \<or>
                  js_strict_neq (snd (self ! index)) (snd (self ! (index - 1))))
          [0..<length self])"

text \<open>
  \<open>snapToRoad\<close> returns its points and, beside them, the URLs it has requested, in order
  (none when it returns before \<open>axios.get\<close>). Every throw inside \<open>try\<close> lands in
  \<open>catch\<close>, which returns \<open>coords\<close>: the rejected promise, and reading \<open>.matchings\<close> of an
  absent body.
\<close>

definition snapToRoad ::
  "(jsval \<Rightarrow> string) \<Rightarrow> (string \<Rightarrow> axios_outcome) \<Rightarrow> location list
     \<Rightarrow> location list \<times> string list" where
  "snapToRoad toStr axios_get coords =
     (if length coords < 2 then (coords, [])
      else
        (let url = snap_url toStr coords
         in (case axios_get url of
               Rejected \<Rightarrow> coords
             | Resolved None \<Rightarrow> coords
             | Resolved (Some d) \<Rightarrow>
                 (case matchings d of
                    None \<Rightarrow> coords
                  | Some ms \<Rightarrow>
                      if length ms = 0 then coords
                      else map (\<lambda>(lng, lat). point (JNum lat) (JNum lng))
                             (uniqueCoords (allCoords ms))),
             [url])))"

text \<open>The outcomes the adapter treats as a failure of the collaborator.\<close>

fun no_matchings :: "axios_outcome \<Rightarrow> bool" where
  "no_matchings Rejected = True"
| "no_matchings (Resolved None) = True"
| "no_matchings (Resolved (Some d)) = (matchings d = None \<or> matchings d = Some [])"

text \<open>A point that holds latitude and longitude and nothing else.\<close>

definition lat_lon_only :: "location \<Rightarrow> bool" where
  "lat_lon_only p \<longleftrightarrow>
     timestamp p = JUndefined \<and> tracking_id p = JUndefined \<and> address p = JUndefined"

text \<open>The coordinate list of one matched segment, empty when it has none.\<close>

definition segment :: "matching_json \<Rightarrow> position list" where
  "segment m =
     (case geometry m of
        None \<Rightarrow> []
      | Some g \<Rightarrow> (case coordinates g of None \<Rightarrow> [] | Some cs \<Rightarrow> cs))"

section \<open>Date range (\<open>App.js\<close>)\<close>

text \<open>
  A \<open>Date\<close> holds a time value: milliseconds since the epoch, in UTC. The methods that
  \<open>getDateRange\<close> calls are modelled by the abstract operations with which ECMAScript
  defines them. The time zone of the platform is a parameter: \<open>tza_utc z t\<close> is the offset
  \<open>LocalTZA(t, true)\<close> in force at the UTC time value \<open>t\<close>, and \<open>tza_local z t\<close> is
  \<open>LocalTZA(t, false)\<close>, the offset with which the local time value \<open>t\<close> is resolved (the
  offset before the transition when \<open>t\<close> is skipped or repeated by a clock change).
  \<open>TimeClip\<close> is left out: the time values here come from readings of the clock.
\<close>

record zone =
  tza_utc :: "int \<Rightarrow> int"
  tza_local :: "int \<Rightarrow> int"

definition msPerDay :: int where
  "msPerDay = 86400000"

definition Day :: "int \<Rightarrow> int" where
  "Day t = t div msPerDay"

definition TimeWithinDay :: "int \<Rightarrow> int" where
  "TimeWithinDay t = t mod msPerDay"

definition DayFromYear :: "int \<Rightarrow> int" where
  "DayFromYear y =
     365 * (y - 1970) + (y - 1969) div 4 - (y - 1901) div 100 + (y - 1601) div 400"

definition leap_year :: "int \<Rightarrow> bool" where
  "leap_year y \<longleftrightarrow> (y mod 4 = 0 \<and> y mod 100 \<noteq> 0) \<or> y mod 400 = 0"

text \<open>
  \<open>YearFromTime(t)\<close> is the largest year \<open>y\<close> with \<open>DayFromYear(y) \<le> Day(t)\<close>. It is found
  from the estimate \<open>1970 + Day(t) div 365\<close> by stepping down while the year starts after
  the day, then up while the next year starts on or before it.
\<close>

function year_down :: "int \<Rightarrow> int \<Rightarrow> int" where
  "year_down y d = (if d < DayFromYear y then year_down (y - 1) d else y)"
  by pat_completeness auto
termination
proof -
  have step: "DayFromYear (x - 1) < DayFromYear x" for x
  proof -
    define p q r p' q' r' where
      "p = (x - 1 - 1969) div 4" and "q = (x - 1 - 1901) div 100" and
      "r = (x - 1 - 1601) div 400" and "p' = (x - 1969) div 4" and
      "q' = (x - 1901) div 100" and "r' = (x - 1601) div 400"
    have "p \<le> p'" unfolding p_def p'_def by (rule zdiv_mono1) simp_all
    moreover have "r \<le> r'" unfolding r_def r'_def by (rule zdiv_mono1) simp_all
    moreover have "(x - 1901) div 100 \<le> (x - 1 - 1901 + 100) div 100"
      by (rule zdiv_mono1) simp_all
    then have "q' \<le> q + 1" unfolding q_def q'_def by simp
    ultimately have "365 * (x - 1 - 1970) + p - q + r < 365 * (x - 1970) + p' - q' + r'"
      by simp
    then show ?thesis
      by (simp only: DayFromYear_def p_def q_def r_def p'_def q'_def r'_def)
  qed
  show ?thesis
  proof (relation "measure (\<lambda>(y, d). nat (DayFromYear y - d))")
    show "wf (measure (\<lambda>(y, d). nat (DayFromYear y - d)))" by simp
  next
    fix y d :: int
    assume "d < DayFromYear y"
    then show "((y - 1, d), y, d) \<in> measure (\<lambda>(y, d). nat (DayFromYear y - d))"
      using step [of y] by simp
  qed
qed

function year_up :: "int \<Rightarrow> int \<Rightarrow> int" where
  "year_up y d = (if DayFromYear (y + 1) \<le> d then year_up (y + 1) d else y)"
  by pat_completeness auto
termination
proof -
  have step: "DayFromYear (x - 1) < DayFromYear x" for x
  proof -
    define p q r p' q' r' where
      "p = (x - 1 - 1969) div 4" and "q = (x - 1 - 1901) div 100" and
      "r = (x - 1 - 1601) div 400" and "p' = (x - 1969) div 4" and
      "q' = (x - 1901) div 100" and "r' = (x - 1601) div 400"
    have "p \<le> p'" unfolding p_def p'_def by (rule zdiv_mono1) simp_all
    moreover have "r \<le> r'" unfolding r_def r'_def by (rule zdiv_mono1) simp_all
    moreover have "(x - 1901) div 100 \<le> (x - 1 - 1901 + 100) div 100"
      by (rule zdiv_mono1) simp_all
    then have "q' \<le> q + 1" unfolding q_def q'_def by simp
    ultimately have "365 * (x - 1 - 1970) + p - q + r < 365 * (x - 1970) + p' - q' + r'"
      by simp
    then show ?thesis
      by (simp only: DayFromYear_def p_def q_def r_def p'_def q'_def r'_def)
  qed
  show ?thesis
  proof (relation "measure (\<lambda>(y, d). nat (d + 1 - DayFromYear (y + 1)))")
    show "wf (measure (\<lambda>(y, d). nat (d + 1 - DayFromYear (y + 1))))" by simp
  next
    fix y d :: int
    assume le: "DayFromYear (y + 1) \<le> d"
    have "y + 1 + 1 - 1 = y + 1" by simp
    then have "DayFromYear (y + 1) < DayFromYear (y + 1 + 1)"
      using step [of "y + 1 + 1"] by (simp only:)
    then show "((y + 1, d), y, d) \<in> measure (\<lambda>(y, d). nat (d + 1 - DayFromYear (y + 1)))"
      using le by simp
  qed
qed

declare year_down.simps [simp del]
declare year_up.simps [simp del]

definition YearFromTime :: "int \<Rightarrow> int" where
  "YearFromTime t = year_up (year_down (1970 + Day t div 365) (Day t)) (Day t)"

definition DayWithinYear :: "int \<Rightarrow> int" where
  "DayWithinYear t = Day t - DayFromYear (YearFromTime t)"

text \<open>The number of days of year \<open>y\<close> before its month \<open>m\<close>, months counted from 0.\<close>

definition days_before_month :: "int \<Rightarrow> int \<Rightarrow> int" where
  "days_before_month y m =
     (if m = 0 then 0
      else if m = 1 then 31
      else (if leap_year y then 1 else 0) +
           (if m = 2 then 59 else if m = 3 then 90 else if m = 4 then 120
            else if m = 5 then 151 else if m = 6 then 181 else if m = 7 then 212
            else if m = 8 then 243 else if m = 9 then 273 else if m = 10 then 304
            else 334))"

definition MonthFromTime :: "int \<Rightarrow> int" where
  "MonthFromTime t =
     (let d = DayWithinYear t;
          l = (if leap_year (YearFromTime t) then 1 else 0)
      in if d < 31 then 0 else if d < 59 + l then 1 else if d < 90 + l then 2
         else if d < 120 + l then 3 else if d < 151 + l then 4 else if d < 181 + l then 5
         else if d < 212 + l then 6 else if d < 243 + l then 7 else if d < 273 + l then 8
         else if d < 304 + l then 9 else if d < 334 + l then 10 else 11)"

definition DateFromTime :: "int \<Rightarrow> int" where
  "DateFromTime t =
     DayWithinYear t - days_before_month (YearFromTime t) (MonthFromTime t) + 1"

text \<open>\<open>MakeDay(year, month, date)\<close>: the day number of the first of the month, the month
  carried into the year, plus \<open>date - 1\<close>.\<close>

definition MakeDay :: "int \<Rightarrow> int \<Rightarrow> int \<Rightarrow> int" where
  "MakeDay y m dt =
     (let ym = y + m div 12; mn = m mod 12
      in DayFromYear ym + days_before_month ym mn + dt - 1)"

definition MakeTime :: "int \<Rightarrow> int \<Rightarrow> int \<Rightarrow> int \<Rightarrow> int" where
  "MakeTime hour mi sec milli = hour * 3600000 + mi * 60000 + sec * 1000 + milli"

definition MakeDate :: "int \<Rightarrow> int \<Rightarrow> int" where
  "MakeDate day time = day * msPerDay + time"

definition LocalTime :: "zone \<Rightarrow> int \<Rightarrow> int" where
  "LocalTime z t = t + tza_utc z t"

definition UTC :: "zone \<Rightarrow> int \<Rightarrow> int" where
  "UTC z t = t - tza_local z t"

text \<open>\<open>Date.prototype.getDate\<close>, \<open>setDate\<close> and \<open>setHours\<close> on the time value \<open>tv\<close> of the
  object; the setters return the new time value.\<close>

definition getDate :: "zone \<Rightarrow> int \<Rightarrow> int" where
  "getDate z tv = DateFromTime (LocalTime z tv)"

definition setDate :: "zone \<Rightarrow> int \<Rightarrow> int \<Rightarrow> int" where
  "setDate z tv dt =
     (let t = LocalTime z tv;
          newDate = MakeDate (MakeDay (YearFromTime t) (MonthFromTime t) dt) (TimeWithinDay t)
      in UTC z newDate)"

definition setHours :: "zone \<Rightarrow> int \<Rightarrow> int \<Rightarrow> int \<Rightarrow> int \<Rightarrow> int \<Rightarrow> int" where
  "setHours z tv hour mi sec milli =
     (let t = LocalTime z tv;
          date = MakeDate (Day t) (MakeTime hour mi sec milli)
      in UTC z date)"

record date_range =
  range_start :: int
  range_end :: int

text \<open>
  \<open>getDateRange\<close> reads the clock three times (\<open>now\<close>, \<open>start\<close>, \<open>end\<close>); the three
  readings are the arguments \<open>now\<close>, \<open>start_now\<close> and \<open>end_now\<close>.
\<close>

definition getDateRange :: "zone \<Rightarrow> int \<Rightarrow> int \<Rightarrow> int \<Rightarrow> string \<Rightarrow> date_range" where
  "getDateRange z now start_now end_now option =
     (if option = ''today'' then
        \<lparr>range_start = setHours z start_now 0 0 0 0,
         range_end = setHours z end_now 23 59 59 999\<rparr>
      else if option = ''yesterday'' then
        (let start = setDate z start_now (getDate z now - 1);
             end_date = setDate z end_now (getDate z now - 1)
         in \<lparr>range_start = setHours z start 0 0 0 0,
             range_end = setHours z end_date 23 59 59 999\<rparr>)
      else \<lparr>range_start = start_now, range_end = end_now\<rparr>)"

text \<open>The local time value \<open>t\<close> is one that the clock of the zone shows: resolving it and
  reading the result back gives \<open>t\<close>. A local time skipped by a clock change is not.\<close>

definition local_exists :: "zone \<Rightarrow> int \<Rightarrow> bool" where
  "local_exists z t \<longleftrightarrow> LocalTime z (UTC z t) = t"

section \<open>Sample data\<close>

text \<open>A date constructor for timestamps given as epoch milliseconds, and a row with
  numeric coordinates and such a timestamp.\<close>

definition date_of_ms :: date_ctor where
  "date_of_ms v = (case v of JNum n \<Rightarrow> n | _ \<Rightarrow> NaN)"

definition row :: "real \<Rightarrow> real \<Rightarrow> real \<Rightarrow> location" where
  "row lat lng ms =
     \<lparr>latitude = JNum (Fin lat), longitude = JNum (Fin lng), timestamp = JNum (Fin ms),
      tracking_id = JStr ''T1'', address = JNull\<rparr>"

text \<open>A stand-in for the haversine package: the sum of the differences in degrees, times
  1000 in meters, and NaN as soon as a coordinate is not a finite number.\<close>

definition sample_hav :: haversine where
  "sample_hav u p q =
     (case (latitude p, longitude p, latitude q, longitude q) of
        (JNum (Fin a), JNum (Fin b), JNum (Fin c), JNum (Fin d)) \<Rightarrow>
          Fin ((if u = ''meter'' then 1000 else 1) * (\<bar>a - c\<bar> + \<bar>b - d\<bar>))
      | _ \<Rightarrow> NaN)"

definition sample_toStr :: "jsval \<Rightarrow> string" where
  "sample_toStr v =
     (case v of
        JNum (Fin r) \<Rightarrow> (if r < 0 then ''-'' else []) @ digits (nat \<lfloor>\<bar>r\<bar>\<rfloor>)
      | JNum NaN \<Rightarrow> ''NaN''
      | JNum PInf \<Rightarrow> ''Infinity''
      | JNum NInf \<Rightarrow> ''-Infinity''
      | JStr s \<Rightarrow> s
      | JNull \<Rightarrow> ''null''
      | JUndefined \<Rightarrow> ''undefined'')"

definition walk :: "location list" where
  "walk = [row 0 0 0, row 0 1 60000, (row 0 2 120000)\<lparr>latitude := JStr ''x''\<rparr>,
           row 0 3 180000, row 0 4 240000]"

text \<open>Collaborators: one that rejects every request, and one that answers every request
  with the two segments \<open>[[0,0],[0,1]]\<close> and \<open>[[0,1],[0,2]]\<close>.\<close>

definition always_rejected :: "string \<Rightarrow> axios_outcome" where
  "always_rejected url = Rejected"

definition two_segments :: "string \<Rightarrow> axios_outcome" where
  "two_segments url =
     Resolved (Some \<lparr>matchings = Some
       [\<lparr>geometry = Some \<lparr>coordinates = Some [(Fin 0, Fin 0), (Fin 0, Fin 1)]\<rparr>\<rparr>,
        \<lparr>geometry = Some \<lparr>coordinates = Some [(Fin 0, Fin 1), (Fin 0, Fin 2)]\<rparr>\<rparr>]\<rparr>)"

text \<open>Time zones: UTC, and America/Sao_Paulo around 4 November 2018, when the clocks went
  from 00:00 local time (03:00 UTC) straight to 01:00.\<close>

definition utc_zone :: zone where
  "utc_zone = \<lparr>tza_utc = (\<lambda>t. 0), tza_local = (\<lambda>t. 0)\<rparr>"

definition sao_paulo :: zone where
  "sao_paulo =
     \<lparr>tza_utc = (\<lambda>t. if t < 1541300400000 then - 10800000 else - 7200000),
      tza_local = (\<lambda>t. if t < 1541293200000 then - 10800000 else - 7200000)\<rparr>"

section \<open>Properties\<close>

subsection \<open>Helper lemmas\<close>

lemma foldl_NaN: "foldl js_add NaN xs = NaN"
  by (induction xs) auto

lemma js_add_NaN_right: "js_add x NaN = NaN"
  by (cases x) auto

lemma foldl_has_NaN: "NaN \<in> set xs \<Longrightarrow> foldl js_add acc xs = NaN"
  by (induction xs arbitrary: acc) (auto simp: foldl_NaN js_add_NaN_right)

lemma pairs_drop:
  assumes "i < length coords - 1"
  shows "drop i (zip coords (tl coords)) =
           (coords ! i, coords ! (i + 1)) # drop (i + 1) (zip coords (tl coords))"
proof -
  have len: "i < length (zip coords (tl coords))" using assms by simp
  have "zip coords (tl coords) ! i = (coords ! i, coords ! (i + 1))"
    using assms by (simp add: nth_tl)
  then show ?thesis using Cons_nth_drop_Suc [OF len] by simp
qed

lemma distance_loop_step:
  "i < length coords - 1 \<Longrightarrow>
   distance_loop hav coords i distance =
     distance_loop hav coords (i + 1)
       (case leg_km hav (coords ! i, coords ! (i + 1)) of
          None \<Rightarrow> distance | Some d \<Rightarrow> js_add distance d)"
  by (subst distance_loop.simps)
     (auto simp: numeric_position_def split: option.splits)

lemma distance_loop_eq:
  "distance_loop hav coords i distance =
     foldl js_add distance (List.map_filter (leg_km hav) (drop i (zip coords (tl coords))))"
proof (induction "length coords - 1 - i" arbitrary: i distance)
  case 0
  then have stop: "\<not> i < length coords - 1" by simp
  then have "drop i (zip coords (tl coords)) = []" by simp
  then show ?case using stop
    by (subst distance_loop.simps) (simp add: map_filter_simps)
next
  case (Suc n)
  then have go: "i < length coords - 1" by simp
  have "n = length coords - 1 - (i + 1)" using Suc.hyps(2) by simp
  note IH = Suc.hyps(1) [OF this]
  show ?case
    using IH
    by (cases "leg_km hav (coords ! i, coords ! (i + 1))")
       (simp_all add: distance_loop_step [OF go] pairs_drop [OF go] map_filter_simps)
qed

lemma stops_loop_eq:
  "stops_loop hav date_ms xs i acc =
     acc @ map (nth xs) (filter (\<lambda>i. isStop hav date_ms (xs ! i) (xs ! (i - 1))) [i..<length xs])"
proof (induction hav date_ms xs i acc rule: stops_loop.induct)
  case (1 hav date_ms xs i acc)
  show ?case
  proof (cases "i < length xs")
    case True
    then have up: "[i..<length xs] = i # [i + 1..<length xs]"
      by (simp add: upt_conv_Cons)
    show ?thesis
      using True "1.IH" by (subst stops_loop.simps) (simp add: up)
  next
    case False
    then show ?thesis by (subst stops_loop.simps) simp
  qed
qed

lemma allCoords_acc:
  "foldl (\<lambda>allCoords matching.
              case geometry matching of
                None \<Rightarrow> allCoords
              | Some g \<Rightarrow> (case coordinates g of None \<Rightarrow> allCoords | Some cs \<Rightarrow> allCoords @ cs))
           acc ms = acc @ concat (map segment ms)"
  by (induction ms arbitrary: acc) (auto simp: segment_def split: option.splits)

lemma allCoords_concat: "allCoords ms = concat (map segment ms)"
  by (simp add: allCoords_def allCoords_acc)

lemma remdups_adj_snoc:
  "remdups_adj (xs @ [x]) = remdups_adj xs @ (if xs = [] \<or> last xs \<noteq> x then [x] else [])"
proof (cases xs rule: rev_cases)
  case Nil then show ?thesis by simp
next
  case (snoc ys y)
  then show ?thesis by (simp add: remdups_adj_append_two)
qed

lemma keep_indices_remdups_adj:
  "map (nth xs) (filter (\<lambda>i. i = 0 \<or> xs ! i \<noteq> xs ! (i - 1)) [0..<length xs]) = remdups_adj xs"
proof (induction xs rule: rev_induct)
  case Nil then show ?case by simp
next
  case (snoc x xs)
  have pre: "filter (\<lambda>i. i = 0 \<or> (xs @ [x]) ! i \<noteq> (xs @ [x]) ! (i - 1)) [0..<length xs]
           = filter (\<lambda>i. i = 0 \<or> xs ! i \<noteq> xs ! (i - 1)) [0..<length xs]"
    by (rule filter_cong) (auto simp: nth_append)
  have m: "map (nth (xs @ [x])) (filter (\<lambda>i. i = 0 \<or> xs ! i \<noteq> xs ! (i - 1)) [0..<length xs])
         = map (nth xs) (filter (\<lambda>i. i = 0 \<or> xs ! i \<noteq> xs ! (i - 1)) [0..<length xs])"
    by (rule map_cong) (auto simp: nth_append)
  have lst: "xs \<noteq> [] \<Longrightarrow> (xs @ [x]) ! (length xs - 1) = last xs"
    by (simp add: nth_append last_conv_nth)
  show ?case
    using snoc.IH lst pre m by (auto simp: remdups_adj_snoc)
qed

lemma uniqueCoords_remdups_adj:
  assumes "\<forall>c \<in> set xs. fst c \<noteq> NaN \<and> snd c \<noteq> NaN"
  shows "uniqueCoords xs = remdups_adj xs"
proof -
  have "filter (\<lambda>index. index = 0 \<or>
                  js_strict_neq (fst (xs ! index)) (fst (xs ! (index - 1))) \<or>
                  js_strict_neq (snd (xs ! index)) (snd (xs ! (index - 1))))
          [0..<length xs]
      = filter (\<lambda>i. i = 0 \<or> xs ! i \<noteq> xs ! (i - 1)) [0..<length xs]"
  proof (rule filter_cong [OF refl])
    fix i assume "i \<in> set [0..<length xs]"
    then have i: "i < length xs" by simp
    then have a: "fst (xs ! i) \<noteq> NaN \<and> snd (xs ! i) \<noteq> NaN" using assms nth_mem by blast
    show "(i = 0 \<or> js_strict_neq (fst (xs ! i)) (fst (xs ! (i - 1))) \<or>
                  js_strict_neq (snd (xs ! i)) (snd (xs ! (i - 1))))
        = (i = 0 \<or> xs ! i \<noteq> xs ! (i - 1))"
    proof (cases "i = 0")
      case True then show ?thesis by simp
    next
      case False
      then have "i - 1 < length xs" using i by simp
      then have b: "fst (xs ! (i - 1)) \<noteq> NaN \<and> snd (xs ! (i - 1)) \<noteq> NaN"
        using assms nth_mem by blast
      show ?thesis using a b False by (auto simp: js_strict_neq_def prod_eq_iff)
    qed
  qed
  then show ?thesis using keep_indices_remdups_adj [of xs] by (simp add: uniqueCoords_def)
qed

lemma year_down_le: "DayFromYear (year_down y d) \<le> d"
proof (induction y d rule: year_down.induct)
  case (1 y d)
  then show ?case by (subst year_down.simps) auto
qed

lemma year_up_bounds:
  "DayFromYear y \<le> d \<Longrightarrow>
   DayFromYear (year_up y d) \<le> d \<and> d < DayFromYear (year_up y d + 1)"
proof (induction y d rule: year_up.induct)
  case (1 y d)
  then show ?case by (subst (1 2) year_up.simps) auto
qed

lemma YearFromTime_bounds:
  "DayFromYear (YearFromTime t) \<le> Day t \<and> Day t < DayFromYear (YearFromTime t + 1)"
  unfolding YearFromTime_def by (rule year_up_bounds) (rule year_down_le)

lemma MonthFromTime_range: "0 \<le> MonthFromTime t \<and> MonthFromTime t \<le> 11"
  by (simp add: MonthFromTime_def Let_def)

lemma MakeDay_in_year:
  "0 \<le> m \<Longrightarrow> m \<le> 11 \<Longrightarrow> MakeDay y m dt = DayFromYear y + days_before_month y m + dt - 1"
  by (simp add: MakeDay_def Let_def)

lemma MakeDay_fields:
  "MakeDay (YearFromTime t) (MonthFromTime t) dt = Day t - DateFromTime t + dt"
  using MonthFromTime_range [of t]
  by (simp add: MakeDay_in_year DateFromTime_def DayWithinYear_def)

lemma fields_of_day:
  assumes "Day t = Day t'"
  shows "YearFromTime t = YearFromTime t'" and "MonthFromTime t = MonthFromTime t'"
    and "DateFromTime t = DateFromTime t'"
proof -
  show y: "YearFromTime t = YearFromTime t'" using assms by (simp add: YearFromTime_def)
  then have w: "DayWithinYear t = DayWithinYear t'" using assms by (simp add: DayWithinYear_def)
  then show m: "MonthFromTime t = MonthFromTime t'" using y by (simp add: MonthFromTime_def)
  then show "DateFromTime t = DateFromTime t'" using y w by (simp add: DateFromTime_def)
qed

lemma setHours_eq:
  "setHours z tv hour mi sec milli =
     UTC z (MakeDate (Day (LocalTime z tv)) (MakeTime hour mi sec milli))"
  by (simp add: setHours_def Let_def)

lemma setDate_eq:
  "setDate z tv dt =
     UTC z (MakeDate (Day (LocalTime z tv) - DateFromTime (LocalTime z tv) + dt)
                     (TimeWithinDay (LocalTime z tv)))"
  by (simp add: setDate_def Let_def MakeDay_fields)


subsection \<open>Stop detection\<close>

text \<open>
  C2. When both timestamps are valid dates and the haversine package returns a finite
  distance \<open>d\<close> in meters, the pair is a stop exactly when \<open>d \<le> 50\<close> and the later
  timestamp is at least 5 minutes (300000 ms) after the earlier one. Both bounds are
  inclusive.
\<close>

theorem isStop_iff:
  assumes "date_ms (timestamp current) = Fin t1"
      and "date_ms (timestamp previous) = Fin t0"
      and "hav ''meter'' current previous = Fin d"
  shows "isStop hav date_ms current previous \<longleftrightarrow> d \<le> 50 \<and> t1 - t0 \<ge> 5 * 60 * 1000"
  using assms by (auto simp: isStop_def js_sub_def js_ge_def Let_def)

text \<open>Exactly 50 m and exactly 5 minutes is a stop; 51 m after 10 minutes is not; 10 m after
  4 minutes is not.\<close>

theorem isStop_iff_witness:
  "isStop sample_hav date_of_ms (row 0 (1 / 20) 300000) (row 0 0 0)
 \<and> \<not> isStop sample_hav date_of_ms (row 0 (51 / 1000) 600000) (row 0 0 0)
 \<and> \<not> isStop sample_hav date_of_ms (row 0 (1 / 100) 240000) (row 0 0 0)"
  using isStop_iff [of date_of_ms "row 0 (1 / 20) 300000" 300000 "row 0 0 0" 0 sample_hav 50]
        isStop_iff [of date_of_ms "row 0 (51 / 1000) 600000" 600000 "row 0 0 0" 0 sample_hav 51]
        isStop_iff [of date_of_ms "row 0 (1 / 100) 240000" 240000 "row 0 0 0" 0 sample_hav 10]
  by (simp add: date_of_ms_def row_def sample_hav_def)

text \<open>
  C4. The stops are the fixes at the indices \<open>i\<close> from 1 to \<open>N - 1\<close>, in order, whose pair
  \<open>(xs ! i, xs ! (i - 1))\<close> qualifies: index 0 is never emitted, each qualifying pair emits
  its own later fix \<open>xs ! i\<close>, and of \<open>N\<close> fixes at most \<open>N - 1\<close> are emitted
  (\<open>fetchData\<close> returns before the loop when there is no valid fix, so \<open>N\<close> is at least 1
  there; on the empty sequence the loop emits nothing).
\<close>

theorem detectStops_later_fix:
  "detectStops hav date_ms xs =
     map (nth xs) (filter (\<lambda>i. isStop hav date_ms (xs ! i) (xs ! (i - 1))) [1..<length xs])
   \<and> (xs \<noteq> [] \<longrightarrow> int (length (detectStops hav date_ms xs)) \<le> int (length xs) - 1)"
proof -
  have eq: "detectStops hav date_ms xs =
     map (nth xs) (filter (\<lambda>i. isStop hav date_ms (xs ! i) (xs ! (i - 1))) [1..<length xs])"
    by (simp add: detectStops_def stops_loop_eq)
  have "length (filter (\<lambda>i. isStop hav date_ms (xs ! i) (xs ! (i - 1))) [1..<length xs])
          \<le> length [1..<length xs]"
    by (rule length_filter_le)
  then have "length (detectStops hav date_ms xs) \<le> length xs - 1" using eq by simp
  moreover have "xs \<noteq> [] \<Longrightarrow> 1 \<le> length xs" by (cases xs) simp_all
  ultimately show ?thesis using eq by auto
qed

text \<open>Four fixes: the second and the third each close a qualifying pair and are both
  emitted; the first is not, and the fourth is too far away.\<close>

theorem detectStops_later_fix_witness:
  "detectStops sample_hav date_of_ms
     [row 0 0 0, row 0 (1 / 20) 360000, row 0 (1 / 20) 720000, row 5 5 730000]
   = [row 0 (1 / 20) 360000, row 0 (1 / 20) 720000]
 \<and> int (length (detectStops sample_hav date_of_ms
       [row 0 0 0, row 0 (1 / 20) 360000, row 0 (1 / 20) 720000, row 5 5 730000])) \<le> 4 - 1"
  using detectStops_later_fix
    [of sample_hav date_of_ms
        "[row 0 0 0, row 0 (1 / 20) 360000, row 0 (1 / 20) 720000, row 5 5 730000]"]
  by (simp add: upt_rec [of 1] upt_rec [of 2] upt_rec [of 3] upt_rec [of 4]
        isStop_def Let_def js_sub_def js_ge_def date_of_ms_def row_def sample_hav_def)

subsection \<open>Speed and mode\<close>

text \<open>
  C5. At a marker with a predecessor, when both timestamps are valid dates and the later
  one is not after the earlier one, the speed is 0 and the label is Walking, whatever the
  haversine package returns for the pair.
\<close>

theorem calculateSpeed_degenerate:
  assumes "0 < index"
      and "date_ms (timestamp (fixes ! (index - 1))) = Fin t0"
      and "date_ms (timestamp (fixes ! index)) = Fin t1"
      and "t1 \<le> t0"
  shows "calculateSpeed hav date_ms (fixes ! (index - 1)) (fixes ! index) = Fin 0
       \<and> speedLabel hav date_ms fixes index = ''Walking''"
  using assms by (auto simp: speedLabel_def calculateSpeed_def js_sub_def Let_def)

theorem calculateSpeed_degenerate_witness:
  "calculateSpeed sample_hav date_of_ms (row 0 0 60000) (row 10 10 60000) = Fin 0
 \<and> speedLabel sample_hav date_of_ms [row 0 0 60000, row 10 10 60000] 1 = ''Walking''
 \<and> calculateSpeed sample_hav date_of_ms (row 0 0 60000) (row 10 10 0) = Fin 0
 \<and> speedLabel sample_hav date_of_ms [row 0 0 60000, row 10 10 0] 1 = ''Walking''"
  using calculateSpeed_degenerate
          [of 1 date_of_ms "[row 0 0 60000, row 10 10 60000]" 60000 60000 sample_hav]
        calculateSpeed_degenerate
          [of 1 date_of_ms "[row 0 0 60000, row 10 10 0]" 60000 0 sample_hav]
  by (simp add: date_of_ms_def row_def)

subsection \<open>Total distance\<close>

text \<open>
  C3. \<open>calculateTotalDistance\<close> returns \<open>0.00\<close> for fewer than 2 elements; otherwise it
  returns \<open>toFixed(2)\<close> of the sum, from 0 and in order, of the haversine distances in km
  of the consecutive pairs, leaving out every pair with an end that is not an object
  holding numbers for latitude and longitude.
\<close>

theorem calculateTotalDistance_sum:
  "calculateTotalDistance hav toStr coords =
     (if length coords < 2 then ''0.00''
      else toFixed toStr (foldl js_add (Fin 0) (legs_km hav coords)) 2)"
  by (simp add: calculateTotalDistance_def distance_loop_eq legs_km_def)

text \<open>No fix, one fix, and five fixes one degree apart of which the third has a string
  for its latitude: two legs of 1 km are left.\<close>

theorem calculateTotalDistance_sum_witness:
  "calculateTotalDistance sample_hav sample_toStr [] = ''0.00''
 \<and> calculateTotalDistance sample_hav sample_toStr [Some (row 0 0 0)] = ''0.00''
 \<and> calculateTotalDistance sample_hav sample_toStr (map Some walk) = ''2.00''"
  using calculateTotalDistance_sum [of sample_hav sample_toStr "[]"]
        calculateTotalDistance_sum [of sample_hav sample_toStr "[Some (row 0 0 0)]"]
        calculateTotalDistance_sum [of sample_hav sample_toStr "map Some walk"]
  by (simp add: walk_def legs_km_def map_filter_simps numeric_position_def row_def
        sample_hav_def point_def toFixed_def digits.simps Let_def)

text \<open>
  C10. When some consecutive pair holds numbers for all four coordinates, one of them NaN,
  the guard does not skip the pair; the haversine package returns NaN for it, the sum is
  NaN from then on, and the function returns the string \<open>NaN\<close>.
\<close>

theorem calculateTotalDistance_NaN:
  assumes "i + 1 < length coords"
      and "coords ! i = Some a" and "coords ! (i + 1) = Some b"
      and "is_number (latitude a)" and "is_number (longitude a)"
      and "is_number (latitude b)" and "is_number (longitude b)"
      and "latitude a = JNum NaN \<or> longitude a = JNum NaN \<or>
           latitude b = JNum NaN \<or> longitude b = JNum NaN"
      and "hav ''km'' (point (latitude a) (longitude a)) (point (latitude b) (longitude b)) = NaN"
  shows "calculateTotalDistance hav toStr coords = ''NaN''"
proof -
  have len: "i < length (zip coords (tl coords))" using assms(1) by simp
  have "zip coords (tl coords) ! i = (Some a, Some b)"
    using assms(1-3) by (simp add: nth_tl)
  then have mem: "(Some a, Some b) \<in> set (zip coords (tl coords))"
    using len nth_mem by metis
  have "leg_km hav (Some a, Some b) = Some NaN"
    using assms by (simp add: numeric_position_def)
  then have "NaN \<in> set (legs_km hav coords)"
    using mem by (force simp: legs_km_def map_filter_def)
  then have "foldl js_add (Fin 0) (legs_km hav coords) = NaN" by (rule foldl_has_NaN)
  moreover have "\<not> length coords < 2" using assms(1) by simp
  ultimately show ?thesis
    by (simp add: calculateTotalDistance_def distance_loop_eq legs_km_def toFixed_def)
qed

theorem calculateTotalDistance_NaN_witness:
  "calculateTotalDistance sample_hav sample_toStr
     [Some (row 0 0 0), Some (row 0 1 60000), Some ((row 0 2 120000)\<lparr>longitude := JNum NaN\<rparr>)]
   = ''NaN''"
  using calculateTotalDistance_NaN
          [of 1 "[Some (row 0 0 0), Some (row 0 1 60000),
                  Some ((row 0 2 120000)\<lparr>longitude := JNum NaN\<rparr>)]"
              "row 0 1 60000" "(row 0 2 120000)\<lparr>longitude := JNum NaN\<rparr>"
              sample_hav sample_toStr]
  by (simp add: row_def sample_hav_def point_def)

subsection \<open>Road snapping\<close>

text \<open>
  C6. With fewer than 2 fixes \<open>snapToRoad\<close> returns its input unchanged and requests
  nothing from the map-matching service.
\<close>

theorem snapToRoad_short:
  "length coords < 2 \<Longrightarrow> snapToRoad toStr axios_get coords = (coords, [])"
  by (simp add: snapToRoad_def)

theorem snapToRoad_short_witness:
  "snapToRoad sample_toStr two_segments [row 12 77 0] = ([row 12 77 0], [])
 \<and> snapToRoad sample_toStr two_segments [] = ([], [])"
  using snapToRoad_short [of "[row 12 77 0]" sample_toStr two_segments]
        snapToRoad_short [of "[]" sample_toStr two_segments]
  by simp

text \<open>
  C1, as stated, fails: after a rejected request the returned points are not stripped to
  latitude and longitude. The two rows below come back with their timestamp, tracking id
  and address.
\<close>

theorem snapToRoad_fallback_keeps_fields:
  "\<not> list_all lat_lon_only
       (fst (snapToRoad sample_toStr always_rejected [row 0 0 0, row 0 1 60000]))"
  by (simp add: snapToRoad_def always_rejected_def lat_lon_only_def row_def Let_def)

text \<open>
  C1, amended. With 2 fixes or more, when the request is rejected (transport error or a
  status outside 2xx), or the body is absent, or its matchings are absent or empty,
  \<open>snapToRoad\<close> raises nothing and returns the input sequence itself after its one
  request: same length, same order, every fix with all of its fields.
\<close>

theorem snapToRoad_fallback:
  assumes "2 \<le> length coords"
      and "no_matchings (axios_get (snap_url toStr coords))"
  shows "snapToRoad toStr axios_get coords = (coords, [snap_url toStr coords])"
proof (cases "axios_get (snap_url toStr coords)")
  case Rejected
  then show ?thesis using assms(1) by (simp add: snapToRoad_def Let_def)
next
  case (Resolved body)
  show ?thesis
  proof (cases body)
    case None
    then show ?thesis using Resolved assms(1) by (simp add: snapToRoad_def Let_def)
  next
    case (Some d)
    then have "matchings d = None \<or> matchings d = Some []"
      using Resolved assms(2) by simp
    then show ?thesis
      using Some Resolved assms(1) by (auto simp: snapToRoad_def Let_def)
  qed
qed

theorem snapToRoad_fallback_witness:
  "snapToRoad sample_toStr always_rejected [row 0 0 0, row 0 1 60000]
     = ([row 0 0 0, row 0 1 60000], [snap_url sample_toStr [row 0 0 0, row 0 1 60000]])"
  using snapToRoad_fallback [of "[row 0 0 0, row 0 1 60000]" always_rejected sample_toStr]
  by (simp add: always_rejected_def)

text \<open>
  C7. With 2 fixes or more, when the service returns a non-empty list of matchings,
  \<open>snapToRoad\<close> returns the points of the segments' coordinates concatenated in the
  order returned, with every run of adjacent equal coordinate pairs collapsed to its first
  element (\<open>remdups_adj\<close>, which leaves non-adjacent duplicates in place). A parsed JSON
  body holds no NaN, on which \<open>!==\<close> and equality differ. The segments \<open>[[0,0],[0,1]]\<close>
  and \<open>[[0,1],[0,2]]\<close> give three points.
\<close>

theorem snapToRoad_concat_dedup:
  assumes "2 \<le> length coords"
      and "axios_get (snap_url toStr coords) = Resolved (Some d)"
      and "matchings d = Some ms" and "ms \<noteq> []"
      and "\<forall>c \<in> set (concat (map segment ms)). fst c \<noteq> NaN \<and> snd c \<noteq> NaN"
  shows "fst (snapToRoad toStr axios_get coords) =
           map (\<lambda>(lng, lat). point (JNum lat) (JNum lng))
             (remdups_adj (concat (map segment ms)))"
proof -
  have "uniqueCoords (allCoords ms) = remdups_adj (concat (map segment ms))"
    using assms(5) by (simp add: allCoords_concat uniqueCoords_remdups_adj)
  then show ?thesis
    using assms(1-4) by (simp add: snapToRoad_def Let_def)
qed

theorem snapToRoad_concat_dedup_witness:
  "fst (snapToRoad sample_toStr two_segments [row 0 0 0, row 0 1 60000]) =
     [point (JNum (Fin 0)) (JNum (Fin 0)), point (JNum (Fin 1)) (JNum (Fin 0)),
      point (JNum (Fin 2)) (JNum (Fin 0))]"
  using snapToRoad_concat_dedup
    [of "[row 0 0 0, row 0 1 60000]" two_segments sample_toStr
        "\<lparr>matchings = Some
           [\<lparr>geometry = Some \<lparr>coordinates = Some [(Fin 0, Fin 0), (Fin 0, Fin 1)]\<rparr>\<rparr>,
            \<lparr>geometry = Some \<lparr>coordinates = Some [(Fin 0, Fin 1), (Fin 0, Fin 2)]\<rparr>\<rparr>]\<rparr>"
        "[\<lparr>geometry = Some \<lparr>coordinates = Some [(Fin 0, Fin 0), (Fin 0, Fin 1)]\<rparr>\<rparr>,
          \<lparr>geometry = Some \<lparr>coordinates = Some [(Fin 0, Fin 1), (Fin 0, Fin 2)]\<rparr>\<rparr>]"]
  by (simp add: two_segments_def segment_def)

subsection \<open>Date range\<close>

text \<open>
  C8, as stated, fails in two ways. In Sao Paulo on 4 November 2018 local midnight was
  skipped: with all three readings at 12:00 local time, \<open>today\<close> starts at 01:00, not at
  00:00. And the three readings need not fall on one day: with \<open>now\<close> and \<open>start\<close> read at
  23:59:59.999 and \<open>end\<close> one millisecond later, the range of \<open>today\<close> ends on the next
  day.
\<close>

theorem getDateRange_today_not_midnight:
  "LocalTime sao_paulo
     (range_start (getDateRange sao_paulo 1541340000000 1541340000000 1541340000000 ''today''))
     = MakeDate (Day (LocalTime sao_paulo 1541340000000)) (MakeTime 1 0 0 0)
 \<and> LocalTime sao_paulo
     (range_start (getDateRange sao_paulo 1541340000000 1541340000000 1541340000000 ''today''))
     \<noteq> MakeDate (Day (LocalTime sao_paulo 1541340000000)) (MakeTime 0 0 0 0)
 \<and> Day (LocalTime utc_zone
       (range_end (getDateRange utc_zone 1710460799999 1710460799999 1710460800000 ''today'')))
     \<noteq> Day (LocalTime utc_zone 1710460799999)"
  by (simp add: getDateRange_def setHours_eq UTC_def LocalTime_def sao_paulo_def utc_zone_def
        MakeDate_def MakeTime_def Day_def msPerDay_def)

text \<open>
  C8, amended. When the three clock readings fall on the same local day \<open>n\<close>: the bounds
  of \<open>today\<close> read 00:00:00.000 and 23:59:59.999 of day \<open>n\<close> in local time, provided the
  clock of the zone shows these two local times; the bounds of \<open>yesterday\<close> read
  00:00:00.000 and 23:59:59.999 of day \<open>n - 1\<close>, provided the clock shows these two and the
  time of day of the \<open>start\<close> and \<open>end\<close> readings, set on day \<open>n - 1\<close>, is read back on
  that day.
\<close>

theorem getDateRange_presets:
  assumes "Day (LocalTime z now) = n"
      and "Day (LocalTime z start_now) = n"
      and "Day (LocalTime z end_now) = n"
  shows "(local_exists z (MakeDate n (MakeTime 0 0 0 0)) \<longrightarrow>
          local_exists z (MakeDate n (MakeTime 23 59 59 999)) \<longrightarrow>
            LocalTime z (range_start (getDateRange z now start_now end_now ''today''))
              = MakeDate n (MakeTime 0 0 0 0)
          \<and> LocalTime z (range_end (getDateRange z now start_now end_now ''today''))
              = MakeDate n (MakeTime 23 59 59 999))
       \<and> (Day (LocalTime z (UTC z (MakeDate (n - 1) (TimeWithinDay (LocalTime z start_now)))))
            = n - 1 \<longrightarrow>
          Day (LocalTime z (UTC z (MakeDate (n - 1) (TimeWithinDay (LocalTime z end_now)))))
            = n - 1 \<longrightarrow>
          local_exists z (MakeDate (n - 1) (MakeTime 0 0 0 0)) \<longrightarrow>
          local_exists z (MakeDate (n - 1) (MakeTime 23 59 59 999)) \<longrightarrow>
            LocalTime z (range_start (getDateRange z now start_now end_now ''yesterday''))
              = MakeDate (n - 1) (MakeTime 0 0 0 0)
          \<and> LocalTime z (range_end (getDateRange z now start_now end_now ''yesterday''))
              = MakeDate (n - 1) (MakeTime 23 59 59 999))"
proof -
  have today:
    "getDateRange z now start_now end_now ''today'' =
       \<lparr>range_start = UTC z (MakeDate n (MakeTime 0 0 0 0)),
        range_end = UTC z (MakeDate n (MakeTime 23 59 59 999))\<rparr>"
    using assms by (simp add: getDateRange_def setHours_eq)
  have ds: "DateFromTime (LocalTime z start_now) = DateFromTime (LocalTime z now)"
    and de: "DateFromTime (LocalTime z end_now) = DateFromTime (LocalTime z now)"
    using assms by (simp_all add: fields_of_day(3) [of "LocalTime z start_now" "LocalTime z now"]
                      fields_of_day(3) [of "LocalTime z end_now" "LocalTime z now"])
  have s1: "setDate z start_now (getDate z now - 1)
              = UTC z (MakeDate (n - 1) (TimeWithinDay (LocalTime z start_now)))"
    using assms(2) ds by (simp add: setDate_eq getDate_def)
  have e1: "setDate z end_now (getDate z now - 1)
              = UTC z (MakeDate (n - 1) (TimeWithinDay (LocalTime z end_now)))"
    using assms(3) de by (simp add: setDate_eq getDate_def)
  have yesterday:
    "Day (LocalTime z (UTC z (MakeDate (n - 1) (TimeWithinDay (LocalTime z start_now))))) = n - 1
     \<Longrightarrow> Day (LocalTime z (UTC z (MakeDate (n - 1) (TimeWithinDay (LocalTime z end_now))))) = n - 1
     \<Longrightarrow> getDateRange z now start_now end_now ''yesterday'' =
           \<lparr>range_start = UTC z (MakeDate (n - 1) (MakeTime 0 0 0 0)),
            range_end = UTC z (MakeDate (n - 1) (MakeTime 23 59 59 999))\<rparr>"
    by (simp add: getDateRange_def Let_def s1 e1 setHours_eq)
  show ?thesis
    using today yesterday by (simp add: local_exists_def)
qed

text \<open>Resolved in UTC by three readings one millisecond apart at 10:30 on 15 March 2024,
  \<open>yesterday\<close> is 14 March 2024 from 00:00:00.000 to 23:59:59.999 and \<open>today\<close> is
  15 March 2024.\<close>

theorem getDateRange_presets_witness:
  "LocalTime utc_zone
     (range_start (getDateRange utc_zone 1710498600000 1710498600001 1710498600002 ''yesterday''))
     = MakeDate (MakeDay 2024 2 14) (MakeTime 0 0 0 0)
 \<and> LocalTime utc_zone
     (range_end (getDateRange utc_zone 1710498600000 1710498600001 1710498600002 ''yesterday''))
     = MakeDate (MakeDay 2024 2 14) (MakeTime 23 59 59 999)
 \<and> LocalTime utc_zone
     (range_start (getDateRange utc_zone 1710498600000 1710498600001 1710498600002 ''today''))
     = MakeDate (MakeDay 2024 2 15) (MakeTime 0 0 0 0)
 \<and> LocalTime utc_zone
     (range_end (getDateRange utc_zone 1710498600000 1710498600001 1710498600002 ''today''))
     = MakeDate (MakeDay 2024 2 15) (MakeTime 23 59 59 999)"
proof -
  have n: "Day (LocalTime utc_zone 1710498600000) = 19797"
    and s: "Day (LocalTime utc_zone 1710498600001) = 19797"
    and e: "Day (LocalTime utc_zone 1710498600002) = 19797"
    by (simp_all add: Day_def LocalTime_def utc_zone_def msPerDay_def)
  have d: "MakeDay 2024 2 15 = 19797" "MakeDay 2024 2 14 = 19796"
    by (simp_all add: MakeDay_def DayFromYear_def days_before_month_def leap_year_def)
  show ?thesis
    using getDateRange_presets [OF n s e]
    by (simp add: d local_exists_def LocalTime_def UTC_def utc_zone_def Day_def MakeDate_def
          TimeWithinDay_def MakeTime_def msPerDay_def)
qed




end
